theory Spec2Isabelle
  imports Complex_Main
begin

section \<open>Data model\<close>

text \<open>
  The tactical-map front end is TypeScript. Its \<open>number\<close> values are IEEE doubles. They
  are carried by the type of reals, and the arithmetic of the components is read in two
  ways. In the exact reading (\<open>getScaleFactor\<close>, \<open>PlayerMarker\<close>, \<open>MapCanvas\<close>) every
  operation returns the exact real result, so rounding is disregarded. In the rounded
  reading (\<open>getScaleFactor_double\<close>) every operation returns the exact result rounded to
  the nearest double, as the code computes it. NaN and the infinities are in neither
  reading: the statements about the fitted size carry the hypothesis that the sides of
  the image, by which \<open>getScaleFactor\<close> divides, are positive (in HOL \<open>x / 0 = 0\<close>, in
  JavaScript it is an infinity or NaN).

  Record fields are global constants in HOL, so the fields \<open>x\<close>, \<open>y\<close>, \<open>width\<close>, ... of the
  source objects are prefixed with the name of the object they belong to.
\<close>

datatype Team = T | CT

text \<open>\<open>types/Player.ts\<close>: the interface \<open>Player\<close>.\<close>

record Player =
  player_id :: string
  player_name :: string
  player_x :: real
  player_y :: real
  player_team :: Team
  player_alive :: bool

text \<open>The props that a component passes to Konva's \<open>Circle\<close>.\<close>

record Circle =
  circle_x :: real
  circle_y :: real
  circle_radius :: real
  circle_fill :: string

text \<open>
  What the components read of a decoded \<open>HTMLImageElement\<close>: its intrinsic size, and the
  asset it was loaded from.
\<close>

record HTMLImageElement =
  img_src :: string
  img_width :: real
  img_height :: real

text \<open>The browser window, of which only the inner size is read.\<close>

record Window =
  innerWidth :: real
  innerHeight :: real

text \<open>The object held by the \<open>dimensions\<close> state variable of \<open>MapCanvas\<close>.\<close>

record Dimensions =
  dim_width :: real
  dim_height :: real

text \<open>
  The two \<open>useState\<close> cells of \<open>MapCanvas\<close>; \<open>mapImage\<close> is \<open>null\<close> until the image
  has loaded.
\<close>

record MapCanvasState =
  mapImage :: "HTMLImageElement option"
  dimensions :: Dimensions

text \<open>The object returned by \<open>getScaleFactor\<close>: \<open>{ scale, width, height }\<close>.\<close>

record ScaleFactor =
  sf_scale :: real
  sf_width :: real
  sf_height :: real

text \<open>The props of the Konva \<open>Image\<close> node placed by the scaling \<open>MapCanvas\<close>.\<close>

record ImageNode =
  node_image :: HTMLImageElement
  node_width :: real
  node_height :: real
  node_x :: real
  node_y :: real

text \<open>
  The element tree returned by the scaling \<open>MapCanvas\<close>: a \<open>Stage\<close> with its size, and
  one \<open>Layer\<close> holding the optional background image followed by one child per player.
  A child is \<open>None\<close> where \<open>PlayerMarker\<close> returned \<open>null\<close>.
\<close>

record Frame =
  stage_width :: real
  stage_height :: real
  background :: "ImageNode option"
  markers :: "Circle option list"

text \<open>
  The element tree returned by the non-scaling \<open>MapCanvas\<close> of \<open>frontend/react\<close>: the
  \<open>Stage\<close> and the \<open>Image\<close> are given no size or position.
\<close>

record Frame_react =
  background_react :: "HTMLImageElement option"
  markers_react :: "Circle option list"


section \<open>The marker components\<close>

text \<open>
  \<open>frontend/src/components/PlayerMarker.tsx\<close>: the marker with a scale and offsets.
  The colour is chosen first, then a dead player yields \<open>null\<close>.
\<close>

definition PlayerMarker :: "Player \<Rightarrow> real \<Rightarrow> real \<Rightarrow> real \<Rightarrow> Circle option" where
  "PlayerMarker player scale offsetX offsetY =
     (let color = (if player_team player = CT then ''#4da6ff'' else ''#ffb347'')
      in if \<not> player_alive player then None
         else Some \<lparr> circle_x = player_x player * scale + offsetX,
                     circle_y = player_y player * scale + offsetY,
                     circle_radius = 5,
                     circle_fill = color \<rparr>)"

text \<open>\<open>frontend/react/src/components/PlayerMarker.tsx\<close>: the marker without a transform.\<close>

definition PlayerMarker_react :: "Player \<Rightarrow> Circle option" where
  "PlayerMarker_react player =
     (let color = (if player_team player = CT then ''#4da6ff'' else ''#ffb347'')
      in if \<not> player_alive player then None
         else Some \<lparr> circle_x = player_x player,
                     circle_y = player_y player,
                     circle_radius = 5,
                     circle_fill = color \<rparr>)"

text \<open>The circles that reach the canvas: a \<open>null\<close> child draws nothing.\<close>

fun drawn :: "Circle option list \<Rightarrow> Circle list" where
  "drawn [] = []"
| "drawn (None # es) = drawn es"
| "drawn (Some c # es) = c # drawn es"


section \<open>The map canvas\<close>

text \<open>The initial values of the two state cells.\<close>

definition initialState :: "Window \<Rightarrow> MapCanvasState" where
  "initialState window =
     \<lparr> mapImage = None,
       dimensions = \<lparr> dim_width = innerWidth window, dim_height = innerHeight window \<rparr> \<rparr>"

text \<open>\<open>img.onload = () => setMapImage(img)\<close>.\<close>

definition onload :: "HTMLImageElement \<Rightarrow> MapCanvasState \<Rightarrow> MapCanvasState" where
  "onload img s = s\<lparr> mapImage := Some img \<rparr>"

text \<open>The listener of the window's \<open>resize\<close> event.\<close>

definition handleResize :: "Window \<Rightarrow> MapCanvasState \<Rightarrow> MapCanvasState" where
  "handleResize window s =
     s\<lparr> dimensions := \<lparr> dim_width = innerWidth window, dim_height = innerHeight window \<rparr> \<rparr>"

text \<open>
  \<open>getScaleFactor\<close> is a closure over the two state cells, which are its argument here.
\<close>

definition getScaleFactor :: "MapCanvasState \<Rightarrow> ScaleFactor" where
  "getScaleFactor s =
     (case mapImage s of
        None \<Rightarrow> \<lparr> sf_scale = 1, sf_width = 0, sf_height = 0 \<rparr>
      | Some img \<Rightarrow>
          (let padding = 40;
               availableWidth = dim_width (dimensions s) - padding;
               availableHeight = dim_height (dimensions s) - padding;
               scaleX = availableWidth / img_width img;
               scaleY = availableHeight / img_height img;
               scale = min scaleX scaleY
           in \<lparr> sf_scale = scale,
                sf_width = img_width img * scale,
                sf_height = img_height img * scale \<rparr>))"

text \<open>The scaling \<open>MapCanvas\<close>: the tree it returns for the current state and players.\<close>

definition MapCanvas :: "MapCanvasState \<Rightarrow> Player list \<Rightarrow> Frame" where
  "MapCanvas s players =
     (let sf = getScaleFactor s;
          scale = sf_scale sf; width = sf_width sf; height = sf_height sf
      in \<lparr> stage_width = dim_width (dimensions s),
           stage_height = dim_height (dimensions s),
           background =
             (case mapImage s of
                None \<Rightarrow> None
              | Some img \<Rightarrow>
                  Some \<lparr> node_image = img,
                         node_width = width,
                         node_height = height,
                         node_x = (dim_width (dimensions s) - width) / 2,
                         node_y = (dim_height (dimensions s) - height) / 2 \<rparr>),
           markers =
             map (\<lambda>player. PlayerMarker player scale
                              ((dim_width (dimensions s) - width) / 2)
                              ((dim_height (dimensions s) - height) / 2))
                 players \<rparr>)"

text \<open>
  The non-scaling \<open>MapCanvas\<close> of \<open>frontend/react\<close>. As written, that file does not
  parse: a stray \<open>s\<close> follows the \<open>Image\<close> element inside the parenthesised expression
  on line 35. The definition is the component with that one character removed, an
  \<open>Image\<close> guarded by \<open>mapImage\<close> followed by one unguarded \<open>PlayerMarker\<close> per player;
  nothing is claimed of the file as it stands.
\<close>

definition MapCanvas_react :: "MapCanvasState \<Rightarrow> Player list \<Rightarrow> Frame_react" where
  "MapCanvas_react s players =
     \<lparr> background_react = mapImage s,
       markers_react = map (\<lambda>player. PlayerMarker_react player) players \<rparr>"

text \<open>The players of \<open>App.tsx\<close>.\<close>

definition mockPlayers :: "Player list" where
  "mockPlayers =
     [ \<lparr> player_id = ''1'', player_name = ''s1mple'', player_x = 400, player_y = 300,
         player_team = T, player_alive = True \<rparr>,
       \<lparr> player_id = ''2'', player_name = ''device'', player_x = 450, player_y = 350,
         player_team = CT, player_alive = True \<rparr> ]"


section \<open>Double-precision arithmetic\<close>

text \<open>The number of binary digits of a natural number.\<close>

fun bits :: "nat \<Rightarrow> nat" where
  "bits 0 = 0"
| "bits (Suc n) = Suc (bits (Suc n div 2))"

text \<open>For positive \<open>a\<close>, the integer \<open>k\<close> with \<open>2 ^ k \<le> a < 2 ^ (k + 1)\<close>.\<close>

definition ilog2 :: "real \<Rightarrow> int" where
  "ilog2 a = (if 1 \<le> a then int (bits (nat \<lfloor>a\<rfloor>)) - 1
              else - int (bits (nat (\<lceil>1 / a\<rceil> - 1))))"

definition pow2 :: "int \<Rightarrow> real" where
  "pow2 e = (if 0 \<le> e then 2 ^ nat e else 1 / 2 ^ nat (- e))"

text \<open>Rounding to the nearest integer, a tie going to the even one.\<close>

definition roundHalfEven :: "real \<Rightarrow> int" where
  "roundHalfEven y =
     (let f = \<lfloor>y\<rfloor>; d = y - of_int f
      in if d < 1 / 2 then f else if 1 / 2 < d then f + 1
         else if even f then f else f + 1)"

text \<open>
  The double nearest to a real number (round to nearest, ties to even): 53 significant
  binary digits, and a least exponent of \<open>-1074\<close> for the subnormal numbers. Overflow to
  an infinity is not modelled; the function is used below the overflow threshold only.
\<close>

definition double :: "real \<Rightarrow> real" where
  "double x =
     (if x = 0 then 0
      else let a = \<bar>x\<bar>;
               e = max (ilog2 a - 52) (- 1074);
               m = roundHalfEven (a / pow2 e)
           in sgn x * (of_int m * pow2 e))"

text \<open>
  \<open>getScaleFactor\<close> in the rounded reading: the same branches and expressions, each
  subtraction, division and multiplication rounded to a double. \<open>Math.min\<close> returns one of
  its arguments and does not round.
\<close>

definition getScaleFactor_double :: "MapCanvasState \<Rightarrow> ScaleFactor" where
  "getScaleFactor_double s =
     (case mapImage s of
        None \<Rightarrow> \<lparr> sf_scale = 1, sf_width = 0, sf_height = 0 \<rparr>
      | Some img \<Rightarrow>
          (let padding = 40;
               availableWidth = double (dim_width (dimensions s) - padding);
               availableHeight = double (dim_height (dimensions s) - padding);
               scaleX = double (availableWidth / img_width img);
               scaleY = double (availableHeight / img_height img);
               scale = min scaleX scaleY
           in \<lparr> sf_scale = scale,
                sf_width = double (img_width img * scale),
                sf_height = double (img_height img * scale) \<rparr>))"


section \<open>Example inputs\<close>

text \<open>
  The map asset imported by \<open>MapCanvas\<close>, taken as an image of 1024 by 1024 pixels, and a
  window of 1000 by 800 pixels.
\<close>

definition dust2 :: HTMLImageElement where
  "dust2 = \<lparr> img_src = ''../assets/maps/dust2.png'', img_width = 1024, img_height = 1024 \<rparr>"

definition window_1000_800 :: Window where
  "window_1000_800 = \<lparr> innerWidth = 1000, innerHeight = 800 \<rparr>"

text \<open>A window narrower than the padding of 40, and one exactly as wide.\<close>

definition window_20_800 :: Window where
  "window_20_800 = \<lparr> innerWidth = 20, innerHeight = 800 \<rparr>"

definition window_40_800 :: Window where
  "window_40_800 = \<lparr> innerWidth = 40, innerHeight = 800 \<rparr>"

text \<open>An image of 1920 by 1080 pixels and a window of 1002 by 600 pixels.\<close>

definition overview_1920_1080 :: HTMLImageElement where
  "overview_1920_1080 =
     \<lparr> img_src = ''../assets/maps/Cs2_dust2_overview.webp'',
       img_width = 1920, img_height = 1080 \<rparr>"

definition window_1002_600 :: Window where
  "window_1002_600 = \<lparr> innerWidth = 1002, innerHeight = 600 \<rparr>"

text \<open>A player that is no longer alive.\<close>

definition deadPlayer :: Player where
  "deadPlayer =
     \<lparr> player_id = ''3'', player_name = ''ghost'', player_x = 100, player_y = 200,
       player_team = T, player_alive = False \<rparr>"


section \<open>Auxiliary facts\<close>

lemma drawn_append: "drawn (xs @ ys) = drawn xs @ drawn ys"
  by (induction xs rule: drawn.induct) simp_all

lemma drawn_PlayerMarker:
  "drawn (map (\<lambda>p. PlayerMarker p sc ox oy) ps) =
     map (\<lambda>p. \<lparr> circle_x = player_x p * sc + ox,
                 circle_y = player_y p * sc + oy,
                 circle_radius = 5,
                 circle_fill = (if player_team p = CT then ''#4da6ff'' else ''#ffb347'') \<rparr>)
         (filter player_alive ps)"
  by (induction ps) (simp_all add: PlayerMarker_def)

lemma getScaleFactor_None:
  "mapImage s = None \<Longrightarrow> getScaleFactor s = \<lparr> sf_scale = 1, sf_width = 0, sf_height = 0 \<rparr>"
  by (simp add: getScaleFactor_def)

lemma getScaleFactor_Some:
  "mapImage s = Some img \<Longrightarrow>
     getScaleFactor s =
       \<lparr> sf_scale = min ((dim_width (dimensions s) - 40) / img_width img)
                        ((dim_height (dimensions s) - 40) / img_height img),
         sf_width = img_width img * min ((dim_width (dimensions s) - 40) / img_width img)
                                        ((dim_height (dimensions s) - 40) / img_height img),
         sf_height = img_height img * min ((dim_width (dimensions s) - 40) / img_width img)
                                          ((dim_height (dimensions s) - 40) / img_height img) \<rparr>"
  by (simp add: getScaleFactor_def Let_def)

lemma markers_MapCanvas:
  "markers (MapCanvas s players) =
     map (\<lambda>p. PlayerMarker p (sf_scale (getScaleFactor s))
                 ((dim_width (dimensions s) - sf_width (getScaleFactor s)) / 2)
                 ((dim_height (dimensions s) - sf_height (getScaleFactor s)) / 2))
         players"
  by (simp add: MapCanvas_def Let_def)


section \<open>Fitting the map into the viewport\<close>

text \<open>
  Claim C1 says that the fitted rectangle never exceeds the space left by the padding
  and is tight on one axis. In the code's doubles it is not so: with an image of 1920 by
  1080 in a window of 1002 by 600 the available space is 962 by 560, the scale is the
  double nearest to \<open>962 / 1920\<close>, which lies above it, and the fitted width
  \<open>1920 * scale\<close> rounds to \<open>962 + 2 ^ -43\<close> (printed as 962.0000000000001). The width
  exceeds the available width, and neither axis is tight: the fitted height is 541.125.
\<close>

theorem fit_within_available_counterexample:
  "mapImage (onload overview_1920_1080 (initialState window_1002_600))
     = Some overview_1920_1080
   \<and> 0 < img_width overview_1920_1080 \<and> 0 < img_height overview_1920_1080
   \<and> dim_width (dimensions (onload overview_1920_1080 (initialState window_1002_600))) - 40
       = 962
   \<and> dim_height (dimensions (onload overview_1920_1080 (initialState window_1002_600))) - 40
       = 560
   \<and> sf_width (getScaleFactor_double
         (onload overview_1920_1080 (initialState window_1002_600))) = 962 + 1 / 2 ^ 43
   \<and> sf_height (getScaleFactor_double
         (onload overview_1920_1080 (initialState window_1002_600))) = 541 + 1 / 8
   \<and> \<not> sf_width (getScaleFactor_double
         (onload overview_1920_1080 (initialState window_1002_600)))
        \<le> dim_width (dimensions
         (onload overview_1920_1080 (initialState window_1002_600))) - 40"
  by code_simp

text \<open>
  Claim C1, amended. Over exact arithmetic, that is with the rounding of the code's
  doubles disregarded, and with the padding that the code fixes at 40: when the image has
  loaded and its width and height are positive, the fitted width is at most the viewport
  width minus 40, the fitted height is at most the viewport height minus 40, and one of
  the two is an equality.
\<close>

theorem fit_within_available:
  assumes "mapImage s = Some img" and "0 < img_width img" and "0 < img_height img"
  shows "sf_width (getScaleFactor s) \<le> dim_width (dimensions s) - 40
       \<and> sf_height (getScaleFactor s) \<le> dim_height (dimensions s) - 40
       \<and> (sf_width (getScaleFactor s) = dim_width (dimensions s) - 40
          \<or> sf_height (getScaleFactor s) = dim_height (dimensions s) - 40)"
  using assms by (auto simp add: getScaleFactor_def Let_def min_def field_simps)

text \<open>
  The theorem at the 1024 by 1024 image in the 1000 by 800 window: the height binds, and
  the fitted rectangle is 760 by 760 in an available space of 960 by 760.
\<close>

theorem fit_within_available_witness:
  "mapImage (onload dust2 (initialState window_1000_800)) = Some dust2
   \<and> 0 < img_width dust2 \<and> 0 < img_height dust2
   \<and> sf_width (getScaleFactor (onload dust2 (initialState window_1000_800))) \<le> 1000 - 40
   \<and> sf_height (getScaleFactor (onload dust2 (initialState window_1000_800))) \<le> 800 - 40
   \<and> (sf_width (getScaleFactor (onload dust2 (initialState window_1000_800))) = 1000 - 40
      \<or> sf_height (getScaleFactor (onload dust2 (initialState window_1000_800))) = 800 - 40)"
  using fit_within_available [of "onload dust2 (initialState window_1000_800)" dust2]
  by (simp add: onload_def initialState_def dust2_def window_1000_800_def)

text \<open>
  Claim C2. When the image has loaded with positive width and height and the fitted
  height is not zero, the fitted rectangle has the aspect ratio of the image.
\<close>

theorem fit_preserves_aspect_ratio:
  assumes "mapImage s = Some img" and "0 < img_width img" and "0 < img_height img"
    and "sf_height (getScaleFactor s) \<noteq> 0"
  shows "sf_width (getScaleFactor s) / sf_height (getScaleFactor s)
       = img_width img / img_height img"
proof -
  let ?k = "sf_scale (getScaleFactor s)"
  have w: "sf_width (getScaleFactor s) = img_width img * ?k"
    and h: "sf_height (getScaleFactor s) = img_height img * ?k"
    using assms(1) by (simp_all add: getScaleFactor_Some)
  from h assms(4) have "?k \<noteq> 0" by auto
  then show ?thesis by (simp add: w h)
qed

theorem fit_preserves_aspect_ratio_witness:
  "mapImage (onload dust2 (initialState window_1000_800)) = Some dust2
   \<and> 0 < img_width dust2 \<and> 0 < img_height dust2
   \<and> sf_height (getScaleFactor (onload dust2 (initialState window_1000_800))) \<noteq> 0
   \<and> sf_width (getScaleFactor (onload dust2 (initialState window_1000_800)))
       / sf_height (getScaleFactor (onload dust2 (initialState window_1000_800)))
     = 1024 / 1024"
  using fit_preserves_aspect_ratio [of "onload dust2 (initialState window_1000_800)" dust2]
  by (simp add: onload_def initialState_def dust2_def window_1000_800_def
                getScaleFactor_def Let_def)

section \<open>Centering and screen positions\<close>

text \<open>
  Claim C3. For a state without an image, or with an image of positive width and
  height, the offsets are half of what the fitted rectangle leaves of the viewport,
  on each axis, and the same two offsets place the background image and every marker:
  the image node, when there is one, has the fitted size and sits at the offsets, and
  the circle of each living player sits at the player's position times the scale plus
  the same offsets.
\<close>

theorem offsets_center_map:
  assumes "case mapImage s of None \<Rightarrow> True
                           | Some img \<Rightarrow> 0 < img_width img \<and> 0 < img_height img"
  shows "(\<forall>node. background (MapCanvas s players) = Some node \<longrightarrow>
            node_width node = sf_width (getScaleFactor s)
          \<and> node_height node = sf_height (getScaleFactor s)
          \<and> node_x node = (stage_width (MapCanvas s players) - node_width node) / 2
          \<and> node_y node = (stage_height (MapCanvas s players) - node_height node) / 2)
       \<and> stage_width (MapCanvas s players) = dim_width (dimensions s)
       \<and> stage_height (MapCanvas s players) = dim_height (dimensions s)
       \<and> map circle_x (drawn (markers (MapCanvas s players))) =
           map (\<lambda>p. player_x p * sf_scale (getScaleFactor s)
                      + (dim_width (dimensions s) - sf_width (getScaleFactor s)) / 2)
               (filter player_alive players)
       \<and> map circle_y (drawn (markers (MapCanvas s players))) =
           map (\<lambda>p. player_y p * sf_scale (getScaleFactor s)
                      + (dim_height (dimensions s) - sf_height (getScaleFactor s)) / 2)
               (filter player_alive players)"
proof -
  have "map circle_x (drawn (markers (MapCanvas s players))) =
          map (\<lambda>p. player_x p * sf_scale (getScaleFactor s)
                     + (dim_width (dimensions s) - sf_width (getScaleFactor s)) / 2)
              (filter player_alive players)"
    by (simp add: markers_MapCanvas drawn_PlayerMarker comp_def)
  moreover have "map circle_y (drawn (markers (MapCanvas s players))) =
          map (\<lambda>p. player_y p * sf_scale (getScaleFactor s)
                     + (dim_height (dimensions s) - sf_height (getScaleFactor s)) / 2)
              (filter player_alive players)"
    by (simp add: markers_MapCanvas drawn_PlayerMarker comp_def)
  moreover have "\<forall>node. background (MapCanvas s players) = Some node \<longrightarrow>
            node_width node = sf_width (getScaleFactor s)
          \<and> node_height node = sf_height (getScaleFactor s)
          \<and> node_x node = (stage_width (MapCanvas s players) - node_width node) / 2
          \<and> node_y node = (stage_height (MapCanvas s players) - node_height node) / 2"
    by (auto simp add: MapCanvas_def Let_def split: option.splits)
  moreover have "stage_width (MapCanvas s players) = dim_width (dimensions s)"
    and "stage_height (MapCanvas s players) = dim_height (dimensions s)"
    by (simp_all add: MapCanvas_def Let_def)
  ultimately show ?thesis by blast
qed

text \<open>
  The theorem at the 1024 by 1024 image in the 1000 by 800 window with the two players of
  the application: the image is 760 by 760 at (120, 20), and the circles are at the
  players' positions times 95/128 plus (120, 20).
\<close>

theorem offsets_center_map_witness:
  "(case mapImage (onload dust2 (initialState window_1000_800)) of
      None \<Rightarrow> True | Some img \<Rightarrow> 0 < img_width img \<and> 0 < img_height img)
   \<and> mapImage (onload dust2 (initialState window_1000_800)) = Some dust2
   \<and> background (MapCanvas (onload dust2 (initialState window_1000_800)) mockPlayers)
       = Some \<lparr> node_image = dust2, node_width = 760, node_height = 760,
                node_x = 120, node_y = 20 \<rparr>
   \<and> map circle_x (drawn (markers
         (MapCanvas (onload dust2 (initialState window_1000_800)) mockPlayers)))
       = [400 * (95 / 128) + 120, 450 * (95 / 128) + 120]
   \<and> map circle_y (drawn (markers
         (MapCanvas (onload dust2 (initialState window_1000_800)) mockPlayers)))
       = [300 * (95 / 128) + 20, 350 * (95 / 128) + 20]"
  using offsets_center_map [of "onload dust2 (initialState window_1000_800)" mockPlayers]
  by (simp add: onload_def initialState_def dust2_def window_1000_800_def mockPlayers_def
                MapCanvas_def getScaleFactor_def Let_def)

text \<open>
  Claim C4. The circle of a living player is at exactly the player's position times the
  scale plus the offset, on each axis, for all real positions, scales and offsets: the
  result is neither checked against any bound nor clamped.
\<close>

theorem marker_screen_position:
  assumes "player_alive player"
  shows "PlayerMarker player scale offsetX offsetY =
           Some \<lparr> circle_x = player_x player * scale + offsetX,
                  circle_y = player_y player * scale + offsetY,
                  circle_radius = 5,
                  circle_fill =
                    (if player_team player = CT then ''#4da6ff'' else ''#ffb347'') \<rparr>"
  using assms by (simp add: PlayerMarker_def)

text \<open>The theorem at the first player of the application, far outside any viewport.\<close>

theorem marker_screen_position_witness:
  "player_alive (hd mockPlayers)
   \<and> PlayerMarker (hd mockPlayers) 1000 (- 500000) 7 =
       Some \<lparr> circle_x = - 100000, circle_y = 300007, circle_radius = 5,
              circle_fill = ''#ffb347'' \<rparr>"
  using marker_screen_position [of "hd mockPlayers" 1000 "- 500000" 7]
  by (simp add: mockPlayers_def)

section \<open>A viewport smaller than the padding\<close>

text \<open>
  Claim C5 says that a viewport leaving no room after the padding gives a fitted
  rectangle of width 0 and height 0. The code has no such case: with the 1024 by 1024
  image in a window 20 wide, the available width is \<open>-20\<close>, the scale is \<open>-20 / 1024\<close>, and
  the fitted width and height are both \<open>-20\<close>.
\<close>

theorem degenerate_fit_counterexample:
  "dim_width (dimensions (onload dust2 (initialState window_20_800))) - 40 \<le> 0
   \<and> sf_width (getScaleFactor (onload dust2 (initialState window_20_800))) = - 20
   \<and> sf_height (getScaleFactor (onload dust2 (initialState window_20_800))) = - 20
   \<and> \<not> (sf_width (getScaleFactor (onload dust2 (initialState window_20_800))) = 0
        \<and> sf_height (getScaleFactor (onload dust2 (initialState window_20_800))) = 0)"
  by (simp add: onload_def initialState_def dust2_def window_20_800_def
                getScaleFactor_def Let_def)

text \<open>
  Claim C5, amended. \<open>getScaleFactor\<close> has no failing branch: it returns a record for
  every state. When the image has loaded with positive width and height and the space
  left by the padding is at most 0 on some axis, the scale, the fitted width and the
  fitted height are all at most 0; each of the three is 0 exactly when the smaller of the
  two available lengths is 0, and each is negative when that length is negative. Nothing
  is clamped to 0.
\<close>

theorem degenerate_fit_nonpositive:
  assumes "mapImage s = Some img" and "0 < img_width img" and "0 < img_height img"
    and "dim_width (dimensions s) - 40 \<le> 0 \<or> dim_height (dimensions s) - 40 \<le> 0"
  shows "sf_scale (getScaleFactor s) \<le> 0
       \<and> sf_width (getScaleFactor s) \<le> 0
       \<and> sf_height (getScaleFactor s) \<le> 0
       \<and> (sf_width (getScaleFactor s) = 0 \<longleftrightarrow> sf_height (getScaleFactor s) = 0)
       \<and> (sf_width (getScaleFactor s) = 0 \<longleftrightarrow>
            min (dim_width (dimensions s) - 40) (dim_height (dimensions s) - 40) = 0)
       \<and> (sf_height (getScaleFactor s) = 0 \<longleftrightarrow>
            min (dim_width (dimensions s) - 40) (dim_height (dimensions s) - 40) = 0)
       \<and> (sf_scale (getScaleFactor s) = 0 \<longleftrightarrow>
            min (dim_width (dimensions s) - 40) (dim_height (dimensions s) - 40) = 0)
       \<and> (min (dim_width (dimensions s) - 40) (dim_height (dimensions s) - 40) < 0 \<longrightarrow>
            sf_scale (getScaleFactor s) < 0
          \<and> sf_width (getScaleFactor s) < 0
          \<and> sf_height (getScaleFactor s) < 0)"
proof -
  let ?aw = "dim_width (dimensions s) - 40" and ?ah = "dim_height (dimensions s) - 40"
  let ?k = "min (?aw / img_width img) (?ah / img_height img)"
  have sf: "sf_scale (getScaleFactor s) = ?k"
    "sf_width (getScaleFactor s) = img_width img * ?k"
    "sf_height (getScaleFactor s) = img_height img * ?k"
    using assms(1) by (simp_all add: getScaleFactor_Some)
  have k: "?k \<le> 0"
    using assms(2,3,4) by (auto simp add: min_le_iff_disj divide_le_0_iff)
  have k0: "?k = 0 \<longleftrightarrow> min ?aw ?ah = 0"
    using assms(2,3) by (auto simp add: min_def divide_le_0_iff zero_le_divide_iff not_le
                              dest: order.strict_implies_order)
  have le: "img_width img * ?k \<le> 0" "img_height img * ?k \<le> 0"
    using k assms(2,3) by (simp_all add: mult_le_0_iff)
  have z: "img_width img * ?k = 0 \<longleftrightarrow> ?k = 0" "img_height img * ?k = 0 \<longleftrightarrow> ?k = 0"
    using assms(2,3) by simp_all
  have neg: "sf_scale (getScaleFactor s) < 0 \<and> sf_width (getScaleFactor s) < 0
             \<and> sf_height (getScaleFactor s) < 0" if "min ?aw ?ah < 0"
  proof -
    from that k0 have "?k \<noteq> 0" by simp
    with k have "?k < 0" by simp
    then show ?thesis
      unfolding sf using assms(2,3) by (simp add: mult_less_0_iff)
  qed
  have main: "sf_scale (getScaleFactor s) \<le> 0 \<and> sf_width (getScaleFactor s) \<le> 0
      \<and> sf_height (getScaleFactor s) \<le> 0
      \<and> (sf_width (getScaleFactor s) = 0 \<longleftrightarrow> sf_height (getScaleFactor s) = 0)
      \<and> (sf_width (getScaleFactor s) = 0 \<longleftrightarrow> min ?aw ?ah = 0)
      \<and> (sf_height (getScaleFactor s) = 0 \<longleftrightarrow> min ?aw ?ah = 0)
      \<and> (sf_scale (getScaleFactor s) = 0 \<longleftrightarrow> min ?aw ?ah = 0)"
    unfolding sf using k k0 le z by blast
  from main neg show ?thesis by blast
qed

text \<open>
  The theorem at the 1024 by 1024 image in a window 20 wide, where the smaller available
  length is \<open>-20\<close> and all three are negative, and in a window 40 wide, where it is 0 and
  all three are 0.
\<close>

theorem degenerate_fit_nonpositive_witness:
  "mapImage (onload dust2 (initialState window_20_800)) = Some dust2
   \<and> mapImage (onload dust2 (initialState window_40_800)) = Some dust2
   \<and> 0 < img_width dust2 \<and> 0 < img_height dust2
   \<and> (dim_width (dimensions (onload dust2 (initialState window_20_800))) - 40 \<le> 0
      \<or> dim_height (dimensions (onload dust2 (initialState window_20_800))) - 40 \<le> 0)
   \<and> (dim_width (dimensions (onload dust2 (initialState window_40_800))) - 40 \<le> 0
      \<or> dim_height (dimensions (onload dust2 (initialState window_40_800))) - 40 \<le> 0)
   \<and> min (dim_width (dimensions (onload dust2 (initialState window_20_800))) - 40)
          (dim_height (dimensions (onload dust2 (initialState window_20_800))) - 40) < 0
   \<and> sf_scale (getScaleFactor (onload dust2 (initialState window_20_800))) < 0
   \<and> sf_width (getScaleFactor (onload dust2 (initialState window_20_800))) < 0
   \<and> sf_height (getScaleFactor (onload dust2 (initialState window_20_800))) < 0
   \<and> min (dim_width (dimensions (onload dust2 (initialState window_40_800))) - 40)
          (dim_height (dimensions (onload dust2 (initialState window_40_800))) - 40) = 0
   \<and> sf_scale (getScaleFactor (onload dust2 (initialState window_40_800))) = 0
   \<and> sf_width (getScaleFactor (onload dust2 (initialState window_40_800))) = 0
   \<and> sf_height (getScaleFactor (onload dust2 (initialState window_40_800))) = 0"
  using degenerate_fit_nonpositive [of "onload dust2 (initialState window_20_800)" dust2]
        degenerate_fit_nonpositive [of "onload dust2 (initialState window_40_800)" dust2]
  by (simp add: onload_def initialState_def dust2_def window_20_800_def window_40_800_def)


section \<open>Dead players\<close>

text \<open>
  Claim C6. A player whose \<open>alive\<close> flag is false gets no marker, in either variant:
  both marker components return \<open>null\<close> for it, its child in the tree of either canvas
  is \<open>null\<close>, and the circles drawn are those drawn for the list without that player.
\<close>

theorem dead_player_draws_nothing:
  assumes "\<not> player_alive p"
  shows "PlayerMarker p scale offsetX offsetY = None
       \<and> PlayerMarker_react p = None
       \<and> markers (MapCanvas s (ps @ p # qs)) ! length ps = None
       \<and> drawn (markers (MapCanvas s (ps @ p # qs))) = drawn (markers (MapCanvas s (ps @ qs)))
       \<and> markers_react (MapCanvas_react s (ps @ p # qs)) ! length ps = None
       \<and> drawn (markers_react (MapCanvas_react s (ps @ p # qs)))
           = drawn (markers_react (MapCanvas_react s (ps @ qs)))"
proof -
  have a: "PlayerMarker p sc ox oy = None" for sc ox oy
    using assms by (simp add: PlayerMarker_def)
  have b: "PlayerMarker_react p = None"
    using assms by (simp add: PlayerMarker_react_def)
  have "markers (MapCanvas s (ps @ p # qs)) ! length ps = None"
    by (simp add: markers_MapCanvas nth_append a)
  moreover have "drawn (markers (MapCanvas s (ps @ p # qs)))
      = drawn (markers (MapCanvas s (ps @ qs)))"
    by (simp add: markers_MapCanvas drawn_append a)
  moreover have "markers_react (MapCanvas_react s (ps @ p # qs)) ! length ps = None"
    by (simp add: MapCanvas_react_def nth_append b)
  moreover have "drawn (markers_react (MapCanvas_react s (ps @ p # qs)))
      = drawn (markers_react (MapCanvas_react s (ps @ qs)))"
    by (simp add: MapCanvas_react_def drawn_append b)
  ultimately show ?thesis using a b by blast
qed

text \<open>
  The theorem at a dead player placed between the two players of the application, in
  the initial state of a 1000 by 800 window: two circles are drawn, none for the dead
  player.
\<close>

theorem dead_player_draws_nothing_witness:
  "\<not> player_alive deadPlayer
   \<and> PlayerMarker deadPlayer 2 10 20 = None
   \<and> PlayerMarker_react deadPlayer = None
   \<and> markers (MapCanvas (initialState window_1000_800)
                ([hd mockPlayers] @ deadPlayer # tl mockPlayers)) ! length [hd mockPlayers]
       = None
   \<and> length (drawn (markers (MapCanvas (initialState window_1000_800)
                ([hd mockPlayers] @ deadPlayer # tl mockPlayers)))) = 2
   \<and> length (drawn (markers_react (MapCanvas_react (initialState window_1000_800)
                ([hd mockPlayers] @ deadPlayer # tl mockPlayers)))) = 2"
  using dead_player_draws_nothing [of deadPlayer 2 10 20 "initialState window_1000_800"
          "[hd mockPlayers]" "tl mockPlayers"]
  by (simp add: deadPlayer_def mockPlayers_def markers_MapCanvas MapCanvas_react_def
                PlayerMarker_def PlayerMarker_react_def)


section \<open>Rendering before and after the image has loaded\<close>

text \<open>
  Claim C7 says that nothing is drawn while the image has not loaded. The code guards
  only the background image: in the initial state of a 1000 by 800 window the two
  players of the application are drawn, at their positions plus (500, 400).
\<close>

theorem render_before_load_counterexample:
  "mapImage (initialState window_1000_800) = None
   \<and> background (MapCanvas (initialState window_1000_800) mockPlayers) = None
   \<and> drawn (markers (MapCanvas (initialState window_1000_800) mockPlayers))
       = [ \<lparr> circle_x = 900, circle_y = 700, circle_radius = 5, circle_fill = ''#ffb347'' \<rparr>,
           \<lparr> circle_x = 950, circle_y = 750, circle_radius = 5, circle_fill = ''#4da6ff'' \<rparr> ]
   \<and> drawn (markers (MapCanvas (initialState window_1000_800) mockPlayers)) \<noteq> []"
  by (simp add: initialState_def window_1000_800_def mockPlayers_def MapCanvas_def
                getScaleFactor_def PlayerMarker_def Let_def)

text \<open>
  Claim C7, amended. While the image has not loaded, the frame has no background image,
  but it has one circle for each living player, in list order, at the player's position
  plus half the viewport size. Once an image of positive width and height has loaded,
  the frame for the same players has that image as its background and one circle for
  each living player, in list order, at the player's position times the fitted scale
  plus the centering offsets, with radius 5 and the colour of the player's team.
\<close>

theorem render_before_and_after_load:
  assumes "mapImage s = None" and "0 < img_width img" and "0 < img_height img"
  shows "background (MapCanvas s players) = None
       \<and> drawn (markers (MapCanvas s players)) =
           map (\<lambda>p. \<lparr> circle_x = player_x p + dim_width (dimensions s) / 2,
                       circle_y = player_y p + dim_height (dimensions s) / 2,
                       circle_radius = 5,
                       circle_fill =
                         (if player_team p = CT then ''#4da6ff'' else ''#ffb347'') \<rparr>)
               (filter player_alive players)
       \<and> (\<exists>node. background (MapCanvas (onload img s) players) = Some node
                 \<and> node_image node = img)
       \<and> drawn (markers (MapCanvas (onload img s) players)) =
           map (\<lambda>p. \<lparr> circle_x = player_x p * sf_scale (getScaleFactor (onload img s))
                         + (dim_width (dimensions s)
                             - sf_width (getScaleFactor (onload img s))) / 2,
                       circle_y = player_y p * sf_scale (getScaleFactor (onload img s))
                         + (dim_height (dimensions s)
                             - sf_height (getScaleFactor (onload img s))) / 2,
                       circle_radius = 5,
                       circle_fill =
                         (if player_team p = CT then ''#4da6ff'' else ''#ffb347'') \<rparr>)
               (filter player_alive players)
       \<and> sf_scale (getScaleFactor (onload img s)) =
           min ((dim_width (dimensions s) - 40) / img_width img)
               ((dim_height (dimensions s) - 40) / img_height img)"
proof -
  have "background (MapCanvas s players) = None"
    using assms(1) by (simp add: MapCanvas_def Let_def)
  moreover have "drawn (markers (MapCanvas s players)) =
           map (\<lambda>p. \<lparr> circle_x = player_x p + dim_width (dimensions s) / 2,
                       circle_y = player_y p + dim_height (dimensions s) / 2,
                       circle_radius = 5,
                       circle_fill =
                         (if player_team p = CT then ''#4da6ff'' else ''#ffb347'') \<rparr>)
               (filter player_alive players)"
    using assms(1) by (simp add: markers_MapCanvas drawn_PlayerMarker getScaleFactor_None)
  moreover have "\<exists>node. background (MapCanvas (onload img s) players) = Some node
                 \<and> node_image node = img"
    by (simp add: MapCanvas_def onload_def Let_def)
  moreover have "drawn (markers (MapCanvas (onload img s) players)) =
           map (\<lambda>p. \<lparr> circle_x = player_x p * sf_scale (getScaleFactor (onload img s))
                         + (dim_width (dimensions s)
                             - sf_width (getScaleFactor (onload img s))) / 2,
                       circle_y = player_y p * sf_scale (getScaleFactor (onload img s))
                         + (dim_height (dimensions s)
                             - sf_height (getScaleFactor (onload img s))) / 2,
                       circle_radius = 5,
                       circle_fill =
                         (if player_team p = CT then ''#4da6ff'' else ''#ffb347'') \<rparr>)
               (filter player_alive players)"
    by (simp add: markers_MapCanvas drawn_PlayerMarker) (simp add: onload_def)
  moreover have "sf_scale (getScaleFactor (onload img s)) =
           min ((dim_width (dimensions s) - 40) / img_width img)
               ((dim_height (dimensions s) - 40) / img_height img)"
    by (simp add: getScaleFactor_def onload_def Let_def)
  ultimately show ?thesis by blast
qed

text \<open>
  The theorem at the 1000 by 800 window, the 1024 by 1024 image and the two players of
  the application: after the load the scale is 95/128 and the first circle is at
  (400 * 95/128 + 120, 300 * 95/128 + 20).
\<close>

theorem render_before_and_after_load_witness:
  "mapImage (initialState window_1000_800) = None
   \<and> 0 < img_width dust2 \<and> 0 < img_height dust2
   \<and> background (MapCanvas (initialState window_1000_800) mockPlayers) = None
   \<and> (\<exists>node. background (MapCanvas (onload dust2 (initialState window_1000_800)) mockPlayers)
               = Some node \<and> node_image node = dust2)
   \<and> sf_scale (getScaleFactor (onload dust2 (initialState window_1000_800))) = 95 / 128
   \<and> hd (drawn (markers (MapCanvas (onload dust2 (initialState window_1000_800)) mockPlayers)))
       = \<lparr> circle_x = 400 * (95 / 128) + 120, circle_y = 300 * (95 / 128) + 20,
           circle_radius = 5, circle_fill = ''#ffb347'' \<rparr>"
  using render_before_and_after_load [of "initialState window_1000_800" dust2 mockPlayers]
  by (simp add: initialState_def window_1000_800_def dust2_def mockPlayers_def
                onload_def getScaleFactor_def Let_def)

section \<open>The fit depends on the sizes only\<close>

text \<open>
  Claim C8. The fit is a function of the image size and the viewport size alone: two
  states whose loaded images have the same positive width and height and whose viewports
  have the same width and height give the same scale and fitted size, whatever else
  differs between them (the image they hold, the events that led to them), and hence the
  same markers for the same players.
\<close>

theorem fit_depends_only_on_sizes:
  assumes "mapImage s = Some img" and "mapImage s' = Some img'"
    and "0 < img_width img" and "0 < img_height img"
    and "img_width img' = img_width img" and "img_height img' = img_height img"
    and "dim_width (dimensions s') = dim_width (dimensions s)"
    and "dim_height (dimensions s') = dim_height (dimensions s)"
  shows "getScaleFactor s' = getScaleFactor s
       \<and> markers (MapCanvas s' players) = markers (MapCanvas s players)"
proof -
  have "getScaleFactor s' = getScaleFactor s"
    using assms by (simp add: getScaleFactor_Some)
  then show ?thesis
    using assms(7,8) by (simp add: markers_MapCanvas)
qed

text \<open>
  The theorem at two states reached by different events and holding images of different
  origins but equal sizes: the image loaded after a resize to 1000 by 800, and a copy of
  the image under another name loaded into a window that opened at 1000 by 800.
\<close>

theorem fit_depends_only_on_sizes_witness:
  "mapImage (onload dust2 (handleResize window_1000_800 (initialState window_20_800)))
     = Some dust2
   \<and> mapImage (onload (dust2\<lparr> img_src := ''copy.png'' \<rparr>) (initialState window_1000_800))
     = Some (dust2\<lparr> img_src := ''copy.png'' \<rparr>)
   \<and> onload (dust2\<lparr> img_src := ''copy.png'' \<rparr>) (initialState window_1000_800)
     \<noteq> onload dust2 (handleResize window_1000_800 (initialState window_20_800))
   \<and> getScaleFactor (onload (dust2\<lparr> img_src := ''copy.png'' \<rparr>) (initialState window_1000_800))
     = getScaleFactor (onload dust2 (handleResize window_1000_800 (initialState window_20_800)))
   \<and> markers (MapCanvas (onload (dust2\<lparr> img_src := ''copy.png'' \<rparr>)
                 (initialState window_1000_800)) mockPlayers)
     = markers (MapCanvas (onload dust2
                 (handleResize window_1000_800 (initialState window_20_800))) mockPlayers)"
  using fit_depends_only_on_sizes
          [of "onload dust2 (handleResize window_1000_800 (initialState window_20_800))" dust2
              "onload (dust2\<lparr> img_src := ''copy.png'' \<rparr>) (initialState window_1000_800)"
              "dust2\<lparr> img_src := ''copy.png'' \<rparr>" mockPlayers]
  by (simp add: onload_def handleResize_def initialState_def dust2_def
                window_1000_800_def window_20_800_def)


section \<open>The two marker variants\<close>

text \<open>
  Claim C9. The marker of \<open>frontend/react\<close>, which takes no transform, is the marker with
  a transform at scale 1 and offsets 0: for every player both return \<open>null\<close> or both return
  a circle of the same position, radius and colour. Hence the children of the non-scaling
  canvas are the scaling markers at scale 1 and offsets 0.
\<close>

theorem simple_marker_is_unit_transform:
  "PlayerMarker_react player = PlayerMarker player 1 0 0
   \<and> markers_react (MapCanvas_react s players) = map (\<lambda>p. PlayerMarker p 1 0 0) players"
proof -
  have "PlayerMarker_react p = PlayerMarker p 1 0 0" for p
    by (simp add: PlayerMarker_react_def PlayerMarker_def)
  then show ?thesis by (simp add: MapCanvas_react_def)
qed


text \<open>
  The theorem at the two players of the application and a dead player: the first player
  is drawn at (400, 300) by both, the dead player by neither.
\<close>

theorem simple_marker_is_unit_transform_witness:
  "PlayerMarker_react (hd mockPlayers) = PlayerMarker (hd mockPlayers) 1 0 0
   \<and> PlayerMarker (hd mockPlayers) 1 0 0
       = Some \<lparr> circle_x = 400, circle_y = 300, circle_radius = 5,
                circle_fill = ''#ffb347'' \<rparr>
   \<and> PlayerMarker_react deadPlayer = None
   \<and> markers_react (MapCanvas_react (initialState window_1000_800) (deadPlayer # mockPlayers))
       = map (\<lambda>p. PlayerMarker p 1 0 0) (deadPlayer # mockPlayers)"
  using simple_marker_is_unit_transform [of "hd mockPlayers"]
        simple_marker_is_unit_transform [of deadPlayer "initialState window_1000_800"
                                            "deadPlayer # mockPlayers"]
  by (simp add: mockPlayers_def deadPlayer_def PlayerMarker_def)


section \<open>The scale factor without an image\<close>

text \<open>
  Claim C10. While the image is absent, \<open>getScaleFactor\<close> returns scale 1 with width 0
  and height 0, so that the markers are given scale 1 and offsets of half the viewport
  width and half the viewport height, and the circle of every living player is at the
  player's position plus those halves.
\<close>

theorem no_image_scale_factor:
  assumes "mapImage s = None"
  shows "getScaleFactor s = \<lparr> sf_scale = 1, sf_width = 0, sf_height = 0 \<rparr>
       \<and> markers (MapCanvas s players) =
           map (\<lambda>p. PlayerMarker p 1 (dim_width (dimensions s) / 2)
                                    (dim_height (dimensions s) / 2)) players
       \<and> (\<forall>i < length players. player_alive (players ! i) \<longrightarrow>
            (\<exists>c. markers (MapCanvas s players) ! i = Some c
               \<and> circle_x c = player_x (players ! i) + dim_width (dimensions s) / 2
               \<and> circle_y c = player_y (players ! i) + dim_height (dimensions s) / 2))"
proof -
  have sf: "getScaleFactor s = \<lparr> sf_scale = 1, sf_width = 0, sf_height = 0 \<rparr>"
    using assms by (rule getScaleFactor_None)
  have ms: "markers (MapCanvas s players) =
           map (\<lambda>p. PlayerMarker p 1 (dim_width (dimensions s) / 2)
                                    (dim_height (dimensions s) / 2)) players"
    by (simp add: markers_MapCanvas sf)
  have "\<forall>i < length players. player_alive (players ! i) \<longrightarrow>
            (\<exists>c. markers (MapCanvas s players) ! i = Some c
               \<and> circle_x c = player_x (players ! i) + dim_width (dimensions s) / 2
               \<and> circle_y c = player_y (players ! i) + dim_height (dimensions s) / 2)"
    by (simp add: ms PlayerMarker_def)
  with sf ms show ?thesis by blast
qed

text \<open>
  The theorem at the initial state of a 1000 by 800 window and the two players of the
  application: the second player, at (450, 350), is drawn at (950, 750).
\<close>

theorem no_image_scale_factor_witness:
  "mapImage (initialState window_1000_800) = None
   \<and> getScaleFactor (initialState window_1000_800)
       = \<lparr> sf_scale = 1, sf_width = 0, sf_height = 0 \<rparr>
   \<and> (1::nat) < length mockPlayers \<and> player_alive (mockPlayers ! 1)
   \<and> markers (MapCanvas (initialState window_1000_800) mockPlayers) ! 1
       = Some \<lparr> circle_x = 950, circle_y = 750, circle_radius = 5,
                circle_fill = ''#4da6ff'' \<rparr>"
  using no_image_scale_factor [of "initialState window_1000_800" mockPlayers]
  by (simp add: initialState_def window_1000_800_def mockPlayers_def PlayerMarker_def)

end
